theory Spec2Isabelle
  imports Complex_Main
begin

section \<open>JavaScript values used by qr-forge\<close>

text \<open>
  Strings are lists of 8-bit characters, each read as one UTF-16 code unit in the range
  0..255 (ISO-8859-1). Every option value delivered by the command-line parser is either
  absent (\<open>None\<close>, JavaScript's \<open>undefined\<close>) or a string. A value is truthy when it is
  present and not the empty string.
\<close>

definition truthy :: "string option \<Rightarrow> bool" where
  "truthy v = (case v of None \<Rightarrow> False | Some s \<Rightarrow> s \<noteq> [])"

definition ToString :: "string option \<Rightarrow> string" where
  "ToString v = (case v of None \<Rightarrow> ''undefined'' | Some s \<Rightarrow> s)"

definition dq :: string where
  "dq = [CHR 0x22]"

definition sq :: string where
  "sq = [CHR 0x27]"

subsection \<open>Character classes and case mapping\<close>

definition code :: "char \<Rightarrow> nat" where
  "code c = of_char c"

definition isDigit :: "char \<Rightarrow> bool" where
  "isDigit c = (48 \<le> code c \<and> code c \<le> 57)"

definition isLowerAF :: "char \<Rightarrow> bool" where
  "isLowerAF c = (97 \<le> code c \<and> code c \<le> 102)"

definition isUpperAF :: "char \<Rightarrow> bool" where
  "isUpperAF c = (65 \<le> code c \<and> code c \<le> 70)"

text \<open>The character class \<open>[A-Fa-f0-9]\<close> of the colour pattern.\<close>

definition isHexDigit :: "char \<Rightarrow> bool" where
  "isHexDigit c = (isUpperAF c \<or> isLowerAF c \<or> isDigit c)"

text \<open>
  \<open>String.prototype.toLowerCase\<close> on the alphabet above: A-Z and the Latin-1 capitals
  (0xC0-0xDE without the multiplication sign 0xD7) move up by 0x20.
\<close>

definition lowerChar :: "char \<Rightarrow> char" where
  "lowerChar c =
     (if (65 \<le> code c \<and> code c \<le> 90) \<or> (192 \<le> code c \<and> code c \<le> 222 \<and> code c \<noteq> 215)
      then char_of (code c + 32) else c)"

definition toLowerCase :: "string \<Rightarrow> string" where
  "toLowerCase s = map lowerChar s"

text \<open>
  \<open>String.prototype.toUpperCase\<close>: a-z and the Latin-1 small letters (0xE0-0xFE without
  the division sign 0xF7) move down by 0x20. The upper-case forms of 0xDF, 0xB5 and 0xFF lie
  outside the alphabet; these three characters are left as they are.
\<close>

definition upperChar :: "char \<Rightarrow> char" where
  "upperChar c =
     (if (97 \<le> code c \<and> code c \<le> 122) \<or> (224 \<le> code c \<and> code c \<le> 254 \<and> code c \<noteq> 247)
      then char_of (code c - 32) else c)"

definition toUpperCase :: "string \<Rightarrow> string" where
  "toUpperCase s = map upperChar s"

subsection \<open>Trimming and splitting\<close>

text \<open>
  White space and line terminators of ECMAScript inside the alphabet: TAB, LF, VT, FF, CR,
  SPACE and NO-BREAK SPACE.
\<close>

definition isWhiteSpace :: "char \<Rightarrow> bool" where
  "isWhiteSpace c = (code c = 9 \<or> code c = 10 \<or> code c = 11 \<or> code c = 12 \<or> code c = 13
                     \<or> code c = 32 \<or> code c = 160)"

definition trimStart :: "string \<Rightarrow> string" where
  "trimStart s = dropWhile isWhiteSpace s"

definition trimEnd :: "string \<Rightarrow> string" where
  "trimEnd s = rev (dropWhile isWhiteSpace (rev s))"

definition trim :: "string \<Rightarrow> string" where
  "trim s = trimEnd (trimStart s)"

text \<open>\<open>s.split(sep)\<close> for a one-character separator; the empty string gives one empty piece.\<close>

fun split_on :: "char \<Rightarrow> string \<Rightarrow> string list" where
  "split_on sep [] = [[]]"
| "split_on sep (c # cs) =
     (if c = sep then [] # split_on sep cs
      else (case split_on sep cs of
              [] \<Rightarrow> [[c]]
            | r # rs \<Rightarrow> (c # r) # rs))"

subsection \<open>Numbers\<close>

text \<open>
  A JavaScript number is NaN, an infinity or a finite value. Finite values are kept as exact
  rationals: the rounding of a decimal literal to the nearest double is not part of the model.
\<close>

datatype jsnum = NaN | Fin rat | PosInf | NegInf

definition isNaN :: "jsnum \<Rightarrow> bool" where
  "isNaN n = (case n of NaN \<Rightarrow> True | _ \<Rightarrow> False)"

fun js_le :: "jsnum \<Rightarrow> jsnum \<Rightarrow> bool" where
  "js_le NaN _ = False"
| "js_le _ NaN = False"
| "js_le NegInf _ = True"
| "js_le _ PosInf = True"
| "js_le (Fin a) (Fin b) = (a \<le> b)"
| "js_le PosInf _ = False"
| "js_le _ NegInf = False"

definition js_ge :: "jsnum \<Rightarrow> jsnum \<Rightarrow> bool" where
  "js_ge a b = js_le b a"

definition js_neg :: "jsnum \<Rightarrow> jsnum" where
  "js_neg n = (case n of NaN \<Rightarrow> NaN | Fin q \<Rightarrow> Fin (- q) | PosInf \<Rightarrow> NegInf | NegInf \<Rightarrow> PosInf)"

definition Math_max :: "jsnum \<Rightarrow> jsnum \<Rightarrow> jsnum" where
  "Math_max a b = (if isNaN a \<or> isNaN b then NaN else if js_le a b then b else a)"

definition Math_min :: "jsnum \<Rightarrow> jsnum \<Rightarrow> jsnum" where
  "Math_min a b = (if isNaN a \<or> isNaN b then NaN else if js_le a b then a else b)"

text \<open>Division by a positive finite constant.\<close>

definition js_div :: "jsnum \<Rightarrow> rat \<Rightarrow> jsnum" where
  "js_div a d = (case a of Fin q \<Rightarrow> Fin (q / d) | other \<Rightarrow> other)"

text \<open>\<open>a || b\<close> on a number: NaN and zero are falsy.\<close>

definition num_or :: "jsnum \<Rightarrow> jsnum \<Rightarrow> jsnum" where
  "num_or a b = (if isNaN a \<or> a = Fin 0 then b else a)"

definition digitVal :: "char \<Rightarrow> nat" where
  "digitVal c =
     (if isDigit c then code c - 48
      else if isLowerAF c then code c - 87
      else if isUpperAF c then code c - 55
      else 0)"

definition radixValue :: "nat \<Rightarrow> string \<Rightarrow> nat" where
  "radixValue r ds = foldl (\<lambda>a c. r * a + digitVal c) 0 ds"

definition isRadixDigit :: "nat \<Rightarrow> char \<Rightarrow> bool" where
  "isRadixDigit r c = (isHexDigit c \<and> digitVal c < r)"

text \<open>\<open>parseInt(v, 10)\<close>: leading white space, an optional sign, the longest run of digits.\<close>

definition parseInt :: "string option \<Rightarrow> jsnum" where
  "parseInt v =
     (let s = trimStart (ToString v);
          negative = (case s of [] \<Rightarrow> False | c # _ \<Rightarrow> c = CHR ''-'');
          body = (case s of [] \<Rightarrow> [] | c # cs \<Rightarrow> if c = CHR ''+'' \<or> c = CHR ''-'' then cs else s);
          ds = takeWhile isDigit body
      in if ds = [] then NaN
         else if negative then Fin (- of_nat (radixValue 10 ds))
         else Fin (of_nat (radixValue 10 ds)))"

text \<open>
  \<open>Number(s)\<close> on a string, after the grammar \<open>StringNumericLiteral\<close>: surrounding white
  space is dropped, the empty string is zero, then either an unsigned literal with prefix
  \<open>0x\<close>, \<open>0o\<close> or \<open>0b\<close>, or a signed decimal literal (\<open>Infinity\<close>, or digits with an
  optional fraction and exponent).
\<close>

definition exponentPart :: "string \<Rightarrow> int option" where
  "exponentPart s =
     (case s of
        [] \<Rightarrow> Some 0
      | c # t \<Rightarrow>
          if c = CHR ''e'' \<or> c = CHR ''E'' then
            (let negative = (case t of [] \<Rightarrow> False | d # _ \<Rightarrow> d = CHR ''-'');
                 ds = (case t of [] \<Rightarrow> [] | d # u \<Rightarrow> if d = CHR ''+'' \<or> d = CHR ''-'' then u else t)
             in if ds \<noteq> [] \<and> list_all isDigit ds
                then Some (if negative then - int (radixValue 10 ds) else int (radixValue 10 ds))
                else None)
          else None)"

definition scale10 :: "rat \<Rightarrow> int \<Rightarrow> rat" where
  "scale10 q e = (if 0 \<le> e then q * 10 ^ nat e else q / 10 ^ nat (- e))"

definition unsignedDecimal :: "string \<Rightarrow> jsnum" where
  "unsignedDecimal s =
     (if s = ''Infinity'' then PosInf
      else
        (let ip = takeWhile isDigit s;
             r1 = dropWhile isDigit s;
             dotted = (case r1 of [] \<Rightarrow> False | c # _ \<Rightarrow> c = CHR ''.'');
             fp = (if dotted then takeWhile isDigit (tl r1) else []);
             r2 = (if dotted then dropWhile isDigit (tl r1) else r1)
         in if ip = [] \<and> fp = [] then NaN
            else (case exponentPart r2 of
                    None \<Rightarrow> NaN
                  | Some e \<Rightarrow>
                      Fin (scale10 (of_nat (radixValue 10 ip)
                                     + of_nat (radixValue 10 fp) / 10 ^ length fp) e))))"

definition nonDecimal :: "string \<Rightarrow> nat option" where
  "nonDecimal s =
     (case s of
        z # p # ds \<Rightarrow>
          (let r = (if p = CHR ''x'' \<or> p = CHR ''X'' then 16
                    else if p = CHR ''o'' \<or> p = CHR ''O'' then 8
                    else if p = CHR ''b'' \<or> p = CHR ''B'' then 2
                    else (0::nat))
           in if z = CHR ''0'' \<and> r \<noteq> 0 \<and> ds \<noteq> [] \<and> list_all (isRadixDigit r) ds
              then Some (radixValue r ds) else None)
      | _ \<Rightarrow> None)"

definition Number :: "string \<Rightarrow> jsnum" where
  "Number s =
     (let t = trim s
      in if t = [] then Fin 0
         else (case nonDecimal t of
                 Some n \<Rightarrow> Fin (of_nat n)
               | None \<Rightarrow>
                   (case t of
                      [] \<Rightarrow> Fin 0
                    | c # u \<Rightarrow>
                        if c = CHR ''+'' then unsignedDecimal u
                        else if c = CHR ''-'' then js_neg (unsignedDecimal u)
                        else unsignedDecimal t)))"

text \<open>Decimal rendering of a non-negative integer, as template literals print it.\<close>

definition digitChar :: "nat \<Rightarrow> char" where
  "digitChar d = ''0123456789'' ! d"

function showNat :: "nat \<Rightarrow> string" where
  "showNat n = (if n < 10 then [digitChar n] else showNat (n div 10) @ [digitChar (n mod 10)])"
  by pat_completeness auto
termination
  by (relation "measure id") auto

declare showNat.simps [simp del]

section \<open>The environment\<close>

text \<open>
  Node's \<open>path\<close> module, \<open>os.homedir()\<close> and the working directory behind
  \<open>path.resolve\<close> belong to the platform, not to the repository. They are a parameter of
  the model, so that every theorem holds for every platform.
\<close>

record pathmod =
  path_sep :: string
  path_isAbsolute :: "string \<Rightarrow> bool"
  path_join :: "string list \<Rightarrow> string"
  path_dirname :: "string \<Rightarrow> string"
  path_extname :: "string \<Rightarrow> string"
  path_basename :: "string \<Rightarrow> string \<Rightarrow> string"
  path_resolve :: "string \<Rightarrow> string"
  os_homedir :: string

text \<open>
  The file system is a state of an arbitrary type \<open>'fs\<close> with the five operations of Node's
  \<open>fs\<close> module that the code calls. An operation that throws returns \<open>Inl\<close> with the
  message of the exception.
\<close>

record 'fs fsmod =
  fs_existsSync :: "'fs \<Rightarrow> string \<Rightarrow> bool"
  fs_isFile :: "'fs \<Rightarrow> string \<Rightarrow> string + bool"
  fs_readFileSync :: "'fs \<Rightarrow> string \<Rightarrow> string + string"
  fs_mkdirSync :: "'fs \<Rightarrow> string \<Rightarrow> string + 'fs"
  fs_writeFileSync :: "'fs \<Rightarrow> string \<Rightarrow> string \<Rightarrow> string + 'fs"

section \<open>Command-line options\<close>

record options =
  opt_output :: "string option"
  opt_format :: "string option"
  opt_size :: "string option"
  opt_color :: "string option"
  opt_background :: "string option"
  opt_margin :: "string option"
  opt_logo :: "string option"
  opt_logoSize :: "string option"
  opt_batch :: "string option"
  opt_html :: bool
  opt_img :: bool

section \<open>validators.js\<close>

text \<open>
  The pattern \<open>/^#([A-Fa-f0-9]{3}|[A-Fa-f0-9]{4}|[A-Fa-f0-9]{6}|[A-Fa-f0-9]{8})$/\<close>: a hash
  sign followed by exactly 3, 4, 6 or 8 hexadecimal digits, and nothing else.
\<close>

definition hexRegex_test :: "string \<Rightarrow> bool" where
  "hexRegex_test s =
     (case s of
        [] \<Rightarrow> False
      | h # ds \<Rightarrow> h = CHR ''#'' \<and> list_all isHexDigit ds
                 \<and> (length ds = 3 \<or> length ds = 4 \<or> length ds = 6 \<or> length ds = 8))"

definition isValidHexColor :: "string option \<Rightarrow> bool" where
  "isValidHexColor color =
     (case color of
        None \<Rightarrow> False
      | Some s \<Rightarrow> if s = [] then False else hexRegex_test s)"

definition normalizeHexColor :: "string option \<Rightarrow> string" where
  "normalizeHexColor color =
     (if \<not> isValidHexColor color then ''#000000FF''
      else
        (let hex = toUpperCase (drop 1 (ToString color));
             hex' = (if length hex = 3 then concat (map (\<lambda>c. [c, c]) hex) @ ''FF''
                     else if length hex = 4 then concat (map (\<lambda>c. [c, c]) hex)
                     else if length hex = 6 then hex @ ''FF''
                     else hex)
         in CHR ''#'' # hex'))"

definition fileExists :: "'fs fsmod \<Rightarrow> 'fs \<Rightarrow> string \<Rightarrow> bool" where
  "fileExists F fs filepath =
     (if fs_existsSync F fs filepath
      then (case fs_isFile F fs filepath of Inl _ \<Rightarrow> False | Inr b \<Rightarrow> b)
      else False)"

definition ensureDirectory :: "'fs fsmod \<Rightarrow> 'fs \<Rightarrow> string \<Rightarrow> bool \<times> 'fs" where
  "ensureDirectory F fs dirpath =
     (if \<not> fs_existsSync F fs dirpath
      then (case fs_mkdirSync F fs dirpath of
              Inl _ \<Rightarrow> (False, fs)
            | Inr fs' \<Rightarrow> (True, fs'))
      else (True, fs))"

definition isValidLogoFile :: "pathmod \<Rightarrow> 'fs fsmod \<Rightarrow> 'fs \<Rightarrow> string \<Rightarrow> bool" where
  "isValidLogoFile P F fs filepath =
     (if \<not> fileExists F fs filepath then False
      else toLowerCase (path_extname P filepath)
             \<in> set [''.png'', ''.jpg'', ''.jpeg'', ''.svg'', ''.webp''])"

definition isValidNumber :: "string \<Rightarrow> jsnum \<Rightarrow> jsnum \<Rightarrow> bool" where
  "isValidNumber v lo hi =
     (let num = Number v in \<not> isNaN num \<and> js_ge num lo \<and> js_le num hi)"

definition isValidFormat :: "string option \<Rightarrow> bool" where
  "isValidFormat fmt =
     (case fmt of
        None \<Rightarrow> False
      | Some f \<Rightarrow> toLowerCase f \<in> set [''png'', ''svg'', ''terminal''])"

record batchfile =
  bf_valid :: bool
  bf_lines :: "string list"
  bf_error :: "string option"

definition validateBatchFile :: "'fs fsmod \<Rightarrow> 'fs \<Rightarrow> string \<Rightarrow> batchfile" where
  "validateBatchFile F fs filepath =
     (if \<not> fileExists F fs filepath
      then \<lparr>bf_valid = False, bf_lines = [], bf_error = Some ''Batch file not found''\<rparr>
      else
        (case fs_readFileSync F fs filepath of
           Inl msg \<Rightarrow>
             \<lparr>bf_valid = False, bf_lines = [],
              bf_error = Some (''Failed to read batch file: '' @ msg)\<rparr>
         | Inr content \<Rightarrow>
             (let lines = filter (\<lambda>line. length line > 0)
                            (map (\<lambda>line. trim line) (split_on (CHR 0x0A) content))
              in if length lines = 0
                 then \<lparr>bf_valid = False, bf_lines = [], bf_error = Some ''Batch file is empty''\<rparr>
                 else \<lparr>bf_valid = True, bf_lines = lines, bf_error = None\<rparr>)))"

record validation =
  vr_valid :: bool
  vr_errors :: "string list"

definition validateOptions ::
  "pathmod \<Rightarrow> 'fs fsmod \<Rightarrow> 'fs \<Rightarrow> options \<Rightarrow> string option \<Rightarrow> validation" where
  "validateOptions P F fs opts data =
     (let e0 = [];
          e1 = (if \<not> truthy data \<and> \<not> truthy (opt_batch opts)
                then e0 @ [''Data argument is required (or use --batch for batch processing)'']
                else e0);
          e2 = (if truthy (opt_color opts) \<and> \<not> isValidHexColor (opt_color opts)
                then e1 @ [''Invalid color format: '' @ dq @ ToString (opt_color opts) @ dq
                           @ ''. Use hex format (#RGB, #RRGGBB, or #RRGGBBAA)'']
                else e1);
          e3 = (if truthy (opt_background opts) \<and> \<not> isValidHexColor (opt_background opts)
                then e2 @ [''Invalid background format: '' @ dq @ ToString (opt_background opts) @ dq
                           @ ''. Use hex format (#RGB, #RRGGBB, or #RRGGBBAA)'']
                else e2);
          e4 = (if truthy (opt_size opts)
                   \<and> \<not> isValidNumber (ToString (opt_size opts)) (Fin 50) (Fin 2000)
                then e3 @ [''Invalid size: '' @ dq @ ToString (opt_size opts) @ dq
                           @ ''. Must be between 50 and 2000 pixels'']
                else e3);
          e5 = (if truthy (opt_margin opts)
                   \<and> \<not> isValidNumber (ToString (opt_margin opts)) (Fin 0) (Fin 20)
                then e4 @ [''Invalid margin: '' @ dq @ ToString (opt_margin opts) @ dq
                           @ ''. Must be between 0 and 20'']
                else e4);
          e6 = (if truthy (opt_format opts) \<and> \<not> isValidFormat (opt_format opts)
                then e5 @ [''Invalid format: '' @ dq @ ToString (opt_format opts) @ dq
                           @ ''. Supported formats: png, svg'']
                else e5);
          e7 = (if truthy (opt_logo opts)
                   \<and> \<not> isValidLogoFile P F fs (ToString (opt_logo opts))
                then e6 @ [''Invalid logo file: '' @ dq @ ToString (opt_logo opts) @ dq
                           @ ''. File must exist and be a valid image (png, jpg, svg, webp)'']
                else e6);
          e8 = (if truthy (opt_logoSize opts)
                   \<and> \<not> isValidNumber (ToString (opt_logoSize opts)) (Fin 5) (Fin 40)
                then e7 @ [''Invalid logo size: '' @ dq @ ToString (opt_logoSize opts) @ dq
                           @ ''. Must be between 5% and 40%'']
                else e7);
          e9 = (if truthy (opt_batch opts)
                then (let batchResult = validateBatchFile F fs (ToString (opt_batch opts))
                      in if \<not> bf_valid batchResult
                         then e8 @ [ToString (bf_error batchResult)]
                         else e8)
                else e8)
      in \<lparr>vr_valid = (length e9 = 0), vr_errors = e9\<rparr>)"

section \<open>qr-builder.js\<close>

record qroptions =
  errorCorrectionLevel :: string
  margin :: jsnum
  width :: jsnum
  color_dark :: string
  color_light :: string

definition DEFAULTS :: qroptions where
  "DEFAULTS = \<lparr>errorCorrectionLevel = ''M'', margin = Fin 4, width = Fin 300,
               color_dark = ''#000000FF'', color_light = ''#FFFFFFFF''\<rparr>"

text \<open>\<open>a || b\<close> on an option value with a string default.\<close>

definition str_or :: "string option \<Rightarrow> string \<Rightarrow> string option" where
  "str_or a b = (if truthy a then a else Some b)"

definition buildQROptions :: "options \<Rightarrow> qroptions" where
  "buildQROptions cliOptions =
     \<lparr>errorCorrectionLevel =
        (if truthy (opt_logo cliOptions) then ''H'' else errorCorrectionLevel DEFAULTS),
      margin =
        (if truthy (opt_margin cliOptions) then parseInt (opt_margin cliOptions)
         else margin DEFAULTS),
      width =
        (if truthy (opt_size cliOptions) then parseInt (opt_size cliOptions)
         else width DEFAULTS),
      color_dark = normalizeHexColor (str_or (opt_color cliOptions) (color_dark DEFAULTS)),
      color_light =
        normalizeHexColor (str_or (opt_background cliOptions) (color_light DEFAULTS))\<rparr>"

record terminaloptions =
  t_type :: string
  t_small :: bool
  t_margin :: jsnum
  t_errorCorrectionLevel :: string

definition buildTerminalOptions :: "options \<Rightarrow> terminaloptions" where
  "buildTerminalOptions cliOptions =
     \<lparr>t_type = ''terminal'',
      t_small = True,
      t_margin =
        (if truthy (opt_margin cliOptions) then parseInt (opt_margin cliOptions)
         else margin DEFAULTS),
      t_errorCorrectionLevel =
        (if truthy (opt_logo cliOptions) then ''H'' else errorCorrectionLevel DEFAULTS)\<rparr>"

text \<open>\<open>xs.pop()\<close> reads the last element; \<open>split\<close> never returns an empty array.\<close>

definition getOutputFormat :: "options \<Rightarrow> string" where
  "getOutputFormat opts =
     (if truthy (opt_format opts) then toLowerCase (ToString (opt_format opts))
      else if truthy (opt_output opts) then
        (let ext = toLowerCase (last (split_on (CHR ''.'') (ToString (opt_output opts))))
         in if ext \<in> set [''png'', ''svg''] then ext else ''png'')
      else ''png'')"

definition shouldEmbedLogo :: "options \<Rightarrow> bool" where
  "shouldEmbedLogo opts = (truthy (opt_logo opts) \<and> getOutputFormat opts = ''png'')"

definition getLogoSize :: "options \<Rightarrow> jsnum" where
  "getLogoSize opts =
     (let size = num_or (parseInt (opt_logoSize opts)) (Fin 20)
      in js_div (Math_min (Math_max size (Fin 5)) (Fin 40)) 100)"

section \<open>Effects\<close>

text \<open>
  The console, the QR encoder and the image compositor are outside the repository. The
  state of a run is the file system together with a trace of what the run did to the
  outside: every logger call and every call of the encoder or the compositor, in order.
  A computation returns the new state and either its result or the way it was cut short:
  an exception with its message, or \<open>process.exit\<close> with its code.
\<close>

datatype logcall =
    LogSuccess string
  | LogError string
  | LogWarn string
  | LogInfo string
  | LogProcessing string
  | LogSaved string
  | LogProgress nat nat string
  | LogQr string
  | LogDivider
  | LogHeader string
  | LogRaw string

text \<open>
  The second argument of the encoder: the terminal bundle, or the encoder parameters,
  alone or spread into an object with an added \<open>type\<close>.
\<close>

datatype qrarg = TerminalOptions terminaloptions | QROptions qroptions "string option"

datatype extcall =
    QR_toString "string option" qrarg
  | QR_toBuffer "string option" qrarg
  | QR_toFile string "string option" qrarg
  | QR_toDataURL "string option" qrarg
  | EmbedLogo string string

datatype event = Log logcall | Call extcall

record 'fs world =
  w_fs :: 'fs
  w_trace :: "event list"

datatype abort = Thrown string | Exit nat

type_synonym ('fs, 'a) io = "'fs world \<Rightarrow> 'fs world \<times> (abort + 'a)"

text \<open>
  The \<open>qrcode\<close> package and \<open>embedLogo\<close> of logo-embed.js, which is pixel work of the
  \<open>sharp\<close> package: each returns its result or the message of the exception it throws.
\<close>

record 'fs qrmod =
  QRCode_toString :: "string option \<Rightarrow> qrarg \<Rightarrow> string + string"
  QRCode_toBuffer :: "string option \<Rightarrow> qrarg \<Rightarrow> string + string"
  QRCode_toFile :: "'fs \<Rightarrow> string \<Rightarrow> string option \<Rightarrow> qrarg \<Rightarrow> string + 'fs"
  QRCode_toDataURL :: "string option \<Rightarrow> qrarg \<Rightarrow> string + string"
  sharp_embedLogo :: "'fs \<Rightarrow> string \<Rightarrow> string \<Rightarrow> options \<Rightarrow> string + string"

definition io_return :: "'a \<Rightarrow> ('fs, 'a) io" where
  "io_return x w = (w, Inr x)"

definition io_throw :: "string \<Rightarrow> ('fs, 'a) io" where
  "io_throw msg w = (w, Inl (Thrown msg))"

definition process_exit :: "nat \<Rightarrow> ('fs, 'a) io" where
  "process_exit n w = (w, Inl (Exit n))"

definition io_bind :: "('fs, 'a) io \<Rightarrow> ('a \<Rightarrow> ('fs, 'b) io) \<Rightarrow> ('fs, 'b) io" where
  "io_bind m f w = (case m w of (w', Inl a) \<Rightarrow> (w', Inl a) | (w', Inr x) \<Rightarrow> f x w')"

definition io_then :: "('fs, unit) io \<Rightarrow> ('fs, 'b) io \<Rightarrow> ('fs, 'b) io" where
  "io_then m k = io_bind m (\<lambda>_. k)"

text \<open>\<open>try { m } catch (err) { h err.message }\<close>: an exit is not caught.\<close>

definition io_catch :: "('fs, 'a) io \<Rightarrow> (string \<Rightarrow> ('fs, 'a) io) \<Rightarrow> ('fs, 'a) io" where
  "io_catch m h w =
     (case m w of
        (w', Inl (Thrown msg)) \<Rightarrow> h msg w'
      | (w', Inl (Exit n)) \<Rightarrow> (w', Inl (Exit n))
      | (w', Inr x) \<Rightarrow> (w', Inr x))"

definition emit :: "event \<Rightarrow> 'fs world \<Rightarrow> 'fs world" where
  "emit e w = w\<lparr>w_trace := w_trace w @ [e]\<rparr>"

definition logger :: "logcall \<Rightarrow> ('fs, unit) io" where
  "logger l w = (emit (Log l) w, Inr ())"

definition lift :: "string + 'a \<Rightarrow> abort + 'a" where
  "lift r = (case r of Inl msg \<Rightarrow> Inl (Thrown msg) | Inr x \<Rightarrow> Inr x)"

definition toString_io :: "'fs qrmod \<Rightarrow> string option \<Rightarrow> qrarg \<Rightarrow> ('fs, string) io" where
  "toString_io Q d arg w = (emit (Call (QR_toString d arg)) w, lift (QRCode_toString Q d arg))"

definition toBuffer_io :: "'fs qrmod \<Rightarrow> string option \<Rightarrow> qrarg \<Rightarrow> ('fs, string) io" where
  "toBuffer_io Q d arg w = (emit (Call (QR_toBuffer d arg)) w, lift (QRCode_toBuffer Q d arg))"

definition toDataURL_io :: "'fs qrmod \<Rightarrow> string option \<Rightarrow> qrarg \<Rightarrow> ('fs, string) io" where
  "toDataURL_io Q d arg w = (emit (Call (QR_toDataURL d arg)) w, lift (QRCode_toDataURL Q d arg))"

definition toFile_io :: "'fs qrmod \<Rightarrow> string \<Rightarrow> string option \<Rightarrow> qrarg \<Rightarrow> ('fs, unit) io" where
  "toFile_io Q file d arg w =
     (let w1 = emit (Call (QR_toFile file d arg)) w
      in case QRCode_toFile Q (w_fs w1) file d arg of
           Inl msg \<Rightarrow> (w1, Inl (Thrown msg))
         | Inr fs' \<Rightarrow> (w1\<lparr>w_fs := fs'\<rparr>, Inr ()))"

definition embedLogo :: "'fs qrmod \<Rightarrow> string \<Rightarrow> string \<Rightarrow> options \<Rightarrow> ('fs, string) io" where
  "embedLogo Q qrBuffer logoPath opts w =
     (emit (Call (EmbedLogo qrBuffer logoPath)) w,
      lift (sharp_embedLogo Q (w_fs w) qrBuffer logoPath opts))"

definition writeFileSync :: "'fs fsmod \<Rightarrow> string \<Rightarrow> string \<Rightarrow> ('fs, unit) io" where
  "writeFileSync F file content w =
     (case fs_writeFileSync F (w_fs w) file content of
        Inl msg \<Rightarrow> (w, Inl (Thrown msg))
      | Inr fs' \<Rightarrow> (w\<lparr>w_fs := fs'\<rparr>, Inr ()))"

definition ensureDirectory_io :: "'fs fsmod \<Rightarrow> string \<Rightarrow> ('fs, bool) io" where
  "ensureDirectory_io F dirpath w =
     (case ensureDirectory F (w_fs w) dirpath of (ok, fs') \<Rightarrow> (w\<lparr>w_fs := fs'\<rparr>, Inr ok))"

section \<open>generate.js\<close>

definition DEFAULT_EXPORT_DIR :: "pathmod \<Rightarrow> string" where
  "DEFAULT_EXPORT_DIR P = path_join P [os_homedir P, ''.qr-forge'', ''exports'']"

text \<open>\<open>s.includes(t)\<close>: \<open>t\<close> occurs in \<open>s\<close> as a contiguous piece.\<close>

fun str_includes :: "string \<Rightarrow> string \<Rightarrow> bool" where
  "str_includes [] t = (t = [])"
| "str_includes (c # cs) t = (take (length t) (c # cs) = t \<or> str_includes cs t)"

text \<open>\<open>now\<close> is the value of \<open>Date.now()\<close>.\<close>

definition resolveOutputPath :: "pathmod \<Rightarrow> string option \<Rightarrow> string \<Rightarrow> nat \<Rightarrow> string" where
  "resolveOutputPath P outp fmt now =
     (if \<not> truthy outp
      then path_join P [DEFAULT_EXPORT_DIR P, ''qr-'' @ showNat now @ ''.'' @ fmt]
      else if \<not> path_isAbsolute P (ToString outp) \<and> \<not> str_includes (ToString outp) (path_sep P)
      then path_join P [DEFAULT_EXPORT_DIR P, ToString outp]
      else path_resolve P (ToString outp))"

definition generatePNG ::
  "'fs fsmod \<Rightarrow> 'fs qrmod \<Rightarrow> string option \<Rightarrow> string \<Rightarrow> qroptions \<Rightarrow> options \<Rightarrow> ('fs, unit) io" where
  "generatePNG F Q d outputPath qrOptions cliOptions =
     io_then
       (if shouldEmbedLogo cliOptions then
          io_then (logger (LogProcessing ''Generating QR code with logo...''))
            (io_bind (toBuffer_io Q d (QROptions qrOptions (Some ''png''))) (\<lambda>qrBuffer.
             io_bind (embedLogo Q qrBuffer (ToString (opt_logo cliOptions)) cliOptions) (\<lambda>finalBuffer.
             io_then (writeFileSync F outputPath finalBuffer)
               (logger (LogSuccess ''QR code with logo generated successfully'')))))
        else
          io_then (logger (LogProcessing ''Generating QR code...''))
            (io_then (toFile_io Q outputPath d (QROptions qrOptions None))
               (logger (LogSuccess ''QR code generated successfully''))))
       (logger (LogSaved outputPath))"

definition generateSVG ::
  "'fs fsmod \<Rightarrow> 'fs qrmod \<Rightarrow> string option \<Rightarrow> string \<Rightarrow> qroptions \<Rightarrow> ('fs, unit) io" where
  "generateSVG F Q d outputPath qrOptions =
     io_then (logger (LogProcessing ''Generating SVG QR code...''))
       (io_bind (toString_io Q d (QROptions qrOptions (Some ''svg''))) (\<lambda>svgString.
        io_then (writeFileSync F outputPath svgString)
          (io_then (logger (LogSuccess ''SVG QR code generated successfully''))
             (logger (LogSaved outputPath)))))"

definition displayTerminalQR :: "'fs qrmod \<Rightarrow> string option \<Rightarrow> options \<Rightarrow> ('fs, unit) io" where
  "displayTerminalQR Q d opts =
     io_catch
       (let terminalOptions = buildTerminalOptions opts
        in io_bind (toString_io Q d (TerminalOptions terminalOptions)) (\<lambda>terminalQR.
           io_then (logger LogDivider)
             (io_then (logger (LogQr terminalQR)) (logger LogDivider))))
       (\<lambda>msg. logger (LogWarn (''Could not display terminal preview: '' @ msg)))"

definition generateQR ::
  "pathmod \<Rightarrow> 'fs fsmod \<Rightarrow> 'fs qrmod \<Rightarrow> nat \<Rightarrow> string option \<Rightarrow> options \<Rightarrow> ('fs, string) io" where
  "generateQR P F Q now d opts =
     (let qrOptions = buildQROptions opts;
          fmt = getOutputFormat opts;
          outputPath = resolveOutputPath P (opt_output opts) fmt now;
          outputDir = path_dirname P outputPath
      in io_bind (ensureDirectory_io F outputDir) (\<lambda>ok.
           if \<not> ok then io_throw (''Failed to create output directory: '' @ outputDir)
           else
             io_then (displayTerminalQR Q d opts)
               (io_then
                  (if fmt = ''svg'' then generateSVG F Q d outputPath qrOptions
                   else generatePNG F Q d outputPath qrOptions opts)
                  (io_return outputPath))))"

definition generateDataURL :: "'fs qrmod \<Rightarrow> string option \<Rightarrow> options \<Rightarrow> ('fs, string) io" where
  "generateDataURL Q d opts = toDataURL_io Q d (QROptions (buildQROptions opts) None)"

definition htmlEntities :: "(char \<times> string) list" where
  "htmlEntities =
     [(CHR ''&'', ''&amp;''),
      (CHR ''<'', ''&lt;''),
      (CHR ''>'', ''&gt;''),
      (CHR 0x22, ''&quot;''),
      (CHR 0x27, ''&#39;'')]"

text \<open>
  \<open>s.replace(/[...]/g, f)\<close> for a character class: every character of the class is
  replaced by what \<open>f\<close> returns for it, from left to right; the others stay.
\<close>

definition replaceClass :: "(char \<Rightarrow> bool) \<Rightarrow> (char \<Rightarrow> string) \<Rightarrow> string \<Rightarrow> string" where
  "replaceClass cls f s = concat (map (\<lambda>c. if cls c then f c else [c]) s)"

definition escapeHtml :: "string \<Rightarrow> string" where
  "escapeHtml str =
     replaceClass (\<lambda>c. c \<in> set [CHR ''&'', CHR ''<'', CHR ''>'', CHR 0x22, CHR 0x27])
       (\<lambda>c. ToString (map_of htmlEntities c)) str"

definition nl :: string where
  "nl = [CHR 0x0A]"

text \<open>
  The template literal of \<open>generateHTMLEmbed\<close>: the text up to the escaped data, with
  the size three times and the data URL in it, then the escaped data, then the rest.
\<close>

definition htmlHead :: "string \<Rightarrow> string \<Rightarrow> string" where
  "htmlHead size_px dataUrl =
     concat [
        ''<!DOCTYPE html>'', nl,
        ''        <html lang='', dq, ''en'', dq, ''>'', nl,
        ''            <head>'', nl,
        ''                <meta charset='', dq, ''UTF-8'', dq, ''>'', nl,
        ''                <meta name='', dq, ''viewport'', dq, '' content='', dq, ''width=device-width, initial-scale=1.0'', dq, ''>'', nl,
        ''                <title>QR Code - qr-forge</title>'', nl,
        ''                <style>'', nl,
        ''                    body {'', nl,
        ''                        display: flex;'', nl,
        ''                        justify-content: center;'', nl,
        ''                        align-items: center;'', nl,
        ''                        min-height: 100vh;'', nl,
        ''                        margin: 0;'', nl,
        ''                        background: #f5f5f5;'', nl,
        ''                        font-family: -apple-system, BlinkMacSystemFont, '', sq, ''Segoe UI'', sq, '', Roboto, sans-serif;'', nl,
        ''                    }'', nl,
        ''                    .qr-container {'', nl,
        ''                        background: white;'', nl,
        ''                        padding: 24px;'', nl,
        ''                        border-radius: 12px;'', nl,
        ''                        box-shadow: 0 4px 24px rgba(0,0,0,0.1);'', nl,
        ''                        text-align: center;'', nl,
        ''                    }'', nl,
        ''                    .qr-container img {'', nl,
        ''                        display: block;'', nl,
        ''                        margin: 0 auto 16px;'', nl,
        ''                    }'', nl,
        ''                    .qr-data {'', nl,
        ''                        color: #666;'', nl,
        ''                        font-size: 14px;'', nl,
        ''                        word-break: break-all;'', nl,
        ''                        max-width: '', size_px, ''px;'', nl,
        ''                    }'', nl,
        ''                    .qr-footer {'', nl,
        ''                        margin-top: 16px;'', nl,
        ''                        color: #999;'', nl,
        ''                        font-size: 12px;'', nl,
        ''                    }'', nl,
        ''                </style>'', nl,
        ''            </head>'', nl,
        ''            <body>'', nl,
        ''                <div class='', dq, ''qr-container'', dq, ''>'', nl,
        ''                <img src='', dq, dataUrl, dq, '' alt='', dq, ''QR Code'', dq, '' width='', dq, size_px, dq, '' height='', dq, size_px, dq, ''>'', nl,
        ''                <p class='', dq, ''qr-data'', dq, ''>'']"

definition htmlTail :: string where
  "htmlTail =
     concat [
        ''</p>'', nl,
        ''                <p class='', dq, ''qr-footer'', dq, ''>Generated with qr-forge</p>'', nl,
        ''                </div>'', nl,
        ''            </body>'', nl,
        ''        </html>'', nl,
        ''    '']"

definition htmlDocument :: "string \<Rightarrow> string \<Rightarrow> string \<Rightarrow> string" where
  "htmlDocument size_px dataUrl escaped = htmlHead size_px dataUrl @ escaped @ htmlTail"

text \<open>\<open>options.size || 300\<close>, as the template prints it.\<close>

definition sizeOrDefault :: "options \<Rightarrow> string" where
  "sizeOrDefault opts = (if truthy (opt_size opts) then ToString (opt_size opts) else showNat 300)"

text \<open>
  Inside the template, \<open>escapeHtml(data)\<close> on a missing \<open>data\<close> throws a TypeError,
  after the data URL was awaited.
\<close>

definition generateHTMLEmbed :: "'fs qrmod \<Rightarrow> string option \<Rightarrow> options \<Rightarrow> ('fs, string) io" where
  "generateHTMLEmbed Q d opts =
     io_bind (generateDataURL Q d opts) (\<lambda>dataUrl.
       (let size_px = sizeOrDefault opts
        in case d of
             None \<Rightarrow> io_throw (''Cannot read properties of undefined (reading '' @ sq @ ''replace'' @ sq @ '')'')
           | Some str \<Rightarrow> io_return (htmlDocument size_px dataUrl (escapeHtml str))))"

definition generateIMGTag :: "'fs qrmod \<Rightarrow> string option \<Rightarrow> options \<Rightarrow> ('fs, string) io" where
  "generateIMGTag Q d opts =
     io_bind (generateDataURL Q d opts) (\<lambda>dataUrl.
       (let size_px = sizeOrDefault opts
        in io_return (''<img src='' @ dq @ dataUrl @ dq @ '' alt='' @ dq @ ''QR Code'' @ dq
                      @ '' width='' @ dq @ size_px @ dq @ '' height='' @ dq @ size_px @ dq @ ''>'')))"

section \<open>batch.js\<close>

definition resolveOutputDir :: "pathmod \<Rightarrow> string option \<Rightarrow> string \<Rightarrow> nat \<Rightarrow> string" where
  "resolveOutputDir P outp batchName now =
     (let timestamp = now;
          folderName = batchName @ ''_batch_'' @ showNat timestamp
      in if \<not> truthy outp then path_join P [DEFAULT_EXPORT_DIR P, folderName]
         else
           (let hasExtension = length (path_extname P (ToString outp)) > 0
            in if hasExtension then
                 (let dir = path_dirname P (ToString outp)
                  in if path_isAbsolute P dir then dir else path_join P [DEFAULT_EXPORT_DIR P, dir])
               else if path_isAbsolute P (ToString outp) then ToString outp
               else path_join P [DEFAULT_EXPORT_DIR P, ToString outp]))"

definition truncateData :: "string \<Rightarrow> nat \<Rightarrow> string" where
  "truncateData d maxLength =
     (if length d \<le> maxLength then d else take (maxLength - 3) d @ ''...'')"

text \<open>\<open>s.padStart(n, c)\<close> for a one-character pad.\<close>

definition padStart :: "string \<Rightarrow> nat \<Rightarrow> char \<Rightarrow> string" where
  "padStart s n c = replicate (n - length s) c @ s"

text \<open>
  The body of the loop for the line \<open>d\<close> at index \<open>i\<close>: the \<open>try\<close> block and its
  \<open>catch\<close>. The result tells which of the two counters the iteration increments:
  \<open>True\<close> for \<open>success++\<close>, \<open>False\<close> for \<open>failed++\<close>.
\<close>

definition batchItem ::
  "pathmod \<Rightarrow> 'fs fsmod \<Rightarrow> 'fs qrmod \<Rightarrow> options \<Rightarrow> qroptions \<Rightarrow> string \<Rightarrow> bool \<Rightarrow> string
     \<Rightarrow> nat \<Rightarrow> nat \<Rightarrow> string \<Rightarrow> ('fs, bool) io" where
  "batchItem P F Q opts qrOptions fmt uselogo outputDir n i d =
     (let filename = ''qr-'' @ padStart (showNat (i + 1)) 3 (CHR ''0'') @ ''.'' @ fmt;
          outputPath = path_join P [outputDir, filename]
      in io_catch
           (io_then (logger (LogProgress (i + 1) n (truncateData d 40)))
              (io_then
                 (if fmt = ''svg'' then
                    io_bind (toString_io Q (Some d) (QROptions qrOptions (Some ''svg''))) (\<lambda>svgString.
                      writeFileSync F outputPath svgString)
                  else if uselogo then
                    io_bind (toBuffer_io Q (Some d) (QROptions qrOptions (Some ''png''))) (\<lambda>qrBuffer.
                    io_bind (embedLogo Q qrBuffer (ToString (opt_logo opts)) opts) (\<lambda>finalBuffer.
                      writeFileSync F outputPath finalBuffer))
                  else toFile_io Q outputPath (Some d) (QROptions qrOptions None))
                 (io_return True)))
           (\<lambda>msg.
              io_then
                (logger (LogError (''Failed to generate QR for: '' @ dq @ truncateData d 40 @ dq
                                   @ '' - '' @ msg)))
                (io_return False)))"

text \<open>
  The loop \<open>for (let i = 0; i < lines.length; i++)\<close> over \<open>lines[i]\<close>: the recursion
  walks the lines that are left, \<open>i\<close> is the index of the first of them, and the pair
  holds the counters \<open>success\<close> and \<open>failed\<close>.
\<close>

fun batchLoop :: "(nat \<Rightarrow> string \<Rightarrow> ('fs, bool) io) \<Rightarrow> nat \<Rightarrow> string list \<Rightarrow> nat \<times> nat
                    \<Rightarrow> ('fs, nat \<times> nat) io" where
  "batchLoop item i [] counters = io_return counters"
| "batchLoop item i (d # rest) counters =
     io_bind (item i d) (\<lambda>ok.
       batchLoop item (i + 1) rest
         (if ok then (fst counters + 1, snd counters) else (fst counters, snd counters + 1)))"

record batchresult =
  br_success :: nat
  br_failed :: nat
  br_outputDir :: string

definition get_fs :: "('fs, 'fs) io" where
  "get_fs w = (w, Inr (w_fs w))"

definition processBatch ::
  "pathmod \<Rightarrow> 'fs fsmod \<Rightarrow> 'fs qrmod \<Rightarrow> nat \<Rightarrow> string \<Rightarrow> options \<Rightarrow> ('fs, batchresult) io" where
  "processBatch P F Q now batchFilePath opts =
     io_bind get_fs (\<lambda>fs.
       (let validation = validateBatchFile F fs batchFilePath
        in if \<not> bf_valid validation then io_throw (ToString (bf_error validation))
           else
             (let lines = bf_lines validation;
                  fmt = getOutputFormat opts;
                  qrOptions = buildQROptions opts;
                  batchFileName = path_basename P batchFilePath (path_extname P batchFilePath);
                  outputDir = resolveOutputDir P (opt_output opts) batchFileName now
              in io_bind (ensureDirectory_io F outputDir) (\<lambda>ok.
                   if \<not> ok then io_throw (''Failed to create output directory: '' @ outputDir)
                   else
                     io_then (logger (LogHeader (''Batch Processing: '' @ showNat (length lines)
                                                 @ '' QR codes'')))
                    (io_then (logger (LogInfo (''Output directory: '' @ outputDir)))
                    (io_then (logger (LogInfo (''Format: '' @ toUpperCase fmt)))
                    (io_then (logger LogDivider)
                    (let uselogo = shouldEmbedLogo opts
                     in io_bind
                          (batchLoop
                             (batchItem P F Q opts qrOptions fmt uselogo outputDir (length lines))
                             0 lines (0, 0))
                          (\<lambda>counters.
                             (let success = fst counters; failed = snd counters
                              in io_then (logger LogDivider)
                                (io_then (logger (LogHeader ''Batch Processing Complete''))
                                (io_then (logger (LogSuccess (''Generated: '' @ showNat success
                                                              @ '' QR codes'')))
                                (io_then
                                   (if failed > 0
                                    then logger (LogError (''Failed: '' @ showNat failed
                                                           @ '' QR codes''))
                                    else io_return ())
                                (io_then (logger (LogSaved outputDir))
                                   (io_return \<lparr>br_success = success, br_failed = failed,
                                               br_outputDir = outputDir\<rparr>)))))))))))))))"

section \<open>The command-line entry point\<close>

definition handleBatchMode ::
  "pathmod \<Rightarrow> 'fs fsmod \<Rightarrow> 'fs qrmod \<Rightarrow> nat \<Rightarrow> options \<Rightarrow> ('fs, unit) io" where
  "handleBatchMode P F Q now opts =
     io_then (logger (LogHeader ''QR-Forge Batch Mode''))
       (io_bind (processBatch P F Q now (ToString (opt_batch opts)) opts) (\<lambda>result.
          if br_failed result > 0 then process_exit 1 else io_return ()))"

definition endsWith :: "string \<Rightarrow> string \<Rightarrow> bool" where
  "endsWith s t = (length t \<le> length s \<and> drop (length s - length t) s = t)"

definition handleHTMLMode ::
  "'fs fsmod \<Rightarrow> 'fs qrmod \<Rightarrow> string option \<Rightarrow> options \<Rightarrow> ('fs, unit) io" where
  "handleHTMLMode F Q d opts =
     io_then (logger (LogProcessing ''Generating HTML embed...''))
       (io_bind (generateHTMLEmbed Q d opts) (\<lambda>html.
          if truthy (opt_output opts) then
            (let outputPath = (if endsWith (ToString (opt_output opts)) ''.html''
                               then ToString (opt_output opts)
                               else ToString (opt_output opts) @ ''.html'')
             in io_then (writeFileSync F outputPath html)
                  (io_then (logger (LogSuccess ''HTML file generated successfully''))
                     (logger (LogSaved outputPath))))
          else
            io_then (logger LogDivider)
              (io_then (logger (LogRaw html))
                 (io_then (logger LogDivider)
                    (logger (LogInfo ''Use -o <path> to save to file''))))))"

definition handleIMGMode :: "'fs qrmod \<Rightarrow> string option \<Rightarrow> options \<Rightarrow> ('fs, unit) io" where
  "handleIMGMode Q d opts =
     io_then (logger (LogProcessing ''Generating IMG tag with base64...''))
       (io_bind (generateIMGTag Q d opts) (\<lambda>imgTag.
          io_then (logger LogDivider)
            (io_then (logger (LogRaw imgTag))
               (io_then (logger LogDivider)
                  (logger (LogInfo ''Copy the above IMG tag to use in your HTML''))))))"

definition truncate :: "string option \<Rightarrow> nat \<Rightarrow> string" where
  "truncate str mx =
     (if \<not> truthy str then []
      else if length (ToString str) > mx then take (mx - 3) (ToString str) @ ''...''
      else ToString str)"

text \<open>\<open>options.format.toUpperCase()\<close> throws a TypeError when the format is missing.\<close>

definition handleStandardMode ::
  "pathmod \<Rightarrow> 'fs fsmod \<Rightarrow> 'fs qrmod \<Rightarrow> nat \<Rightarrow> string option \<Rightarrow> options \<Rightarrow> ('fs, unit) io" where
  "handleStandardMode P F Q now d opts =
     io_then (logger (LogHeader ''QR-Forge''))
       (case opt_format opts of
          None \<Rightarrow>
            io_throw (''Cannot read properties of undefined (reading '' @ sq @ ''toUpperCase'' @ sq @ '')'')
        | Some f \<Rightarrow>
            (let fmt = toUpperCase f;
                 hasLogo = (if truthy (opt_logo opts) then ''Yes'' else ''No'')
             in io_then (logger (LogInfo (''Data: '' @ truncate d 50)))
                  (io_then (logger (LogInfo (''Format: '' @ fmt @ '' | Size: ''
                                             @ ToString (opt_size opts) @ ''px | Logo: '' @ hasLogo)))
                     (io_bind (generateQR P F Q now d opts) (\<lambda>outputPath. io_return ())))))"

fun logErrors :: "string list \<Rightarrow> ('fs, unit) io" where
  "logErrors [] = io_return ()"
| "logErrors (err # errs) = io_then (logger (LogError (''  '' @ err))) (logErrors errs)"

text \<open>The action handler of the program, called with the parsed data argument and options.\<close>

definition action ::
  "pathmod \<Rightarrow> 'fs fsmod \<Rightarrow> 'fs qrmod \<Rightarrow> nat \<Rightarrow> string option \<Rightarrow> options \<Rightarrow> ('fs, unit) io" where
  "action P F Q now d opts =
     io_catch
       (io_bind get_fs (\<lambda>fs.
          (let validation = validateOptions P F fs opts d
           in if \<not> vr_valid validation then
                io_then (logger (LogError ''Validation failed:''))
                  (io_then (logErrors (vr_errors validation)) (process_exit 1))
              else if truthy (opt_batch opts) then handleBatchMode P F Q now opts
              else if opt_html opts then handleHTMLMode F Q d opts
              else if opt_img opts then handleIMGMode Q d opts
              else handleStandardMode P F Q now d opts)))
       (\<lambda>msg. io_then (logger (LogError (''Error: '' @ msg))) (process_exit 1))"

text \<open>
  The exit code of the process: the code passed to \<open>process.exit\<close>, 0 when the action
  returns, 1 when an exception escapes it.
\<close>

definition exitCode :: "'fs world \<times> (abort + unit) \<Rightarrow> nat" where
  "exitCode r = (case snd r of Inl (Exit n) \<Rightarrow> n | Inl (Thrown _) \<Rightarrow> 1 | Inr _ \<Rightarrow> 0)"

section \<open>A concrete environment\<close>

text \<open>
  To run the model on concrete inputs: the POSIX flavour of Node's \<open>path\<close> module, after
  its documentation, and a small file system held in an association list.
\<close>

definition isSlash :: "char \<Rightarrow> bool" where
  "isSlash c = (c = CHR ''/'')"

definition joinWith :: "string \<Rightarrow> string list \<Rightarrow> string" where
  "joinWith s xs = (case xs of [] \<Rightarrow> [] | y # ys \<Rightarrow> y @ concat (map (\<lambda>x. s @ x) ys))"

text \<open>The last component of a path, trailing slashes ignored.\<close>

definition lastComponent :: "string \<Rightarrow> string" where
  "lastComponent p = rev (takeWhile (\<lambda>c. \<not> isSlash c) (dropWhile isSlash (rev p)))"

definition posix_isAbsolute :: "string \<Rightarrow> bool" where
  "posix_isAbsolute p = (case p of [] \<Rightarrow> False | c # _ \<Rightarrow> isSlash c)"

definition posix_extname :: "string \<Rightarrow> string" where
  "posix_extname p =
     (let base = lastComponent p;
          ext = rev (takeWhile (\<lambda>c. c \<noteq> CHR ''.'') (rev base));
          stem = take (length base - length ext - 1) base
      in if CHR ''.'' \<notin> set base then []
         else if stem = [] then []
         else if base = ''..'' then []
         else CHR ''.'' # ext)"

text \<open>
  Segments of a path are resolved from left to right: empty segments and \<open>.\<close> vanish,
  \<open>..\<close> removes the segment before it, or stays when nothing is left and the path is
  relative. The accumulator holds the kept segments in reverse.
\<close>

fun normSegs :: "bool \<Rightarrow> string list \<Rightarrow> string list \<Rightarrow> string list" where
  "normSegs up acc [] = rev acc"
| "normSegs up acc (s # ss) =
     (if s = [] \<or> s = ''.'' then normSegs up acc ss
      else if s = ''..'' then
        (case acc of
           [] \<Rightarrow> normSegs up (if up then [''..''] else []) ss
         | t # ts \<Rightarrow>
             if t = ''..'' then normSegs up (if up then ''..'' # acc else acc) ss
             else normSegs up ts ss)
      else normSegs up (s # acc) ss)"

definition posix_normalize :: "string \<Rightarrow> string" where
  "posix_normalize p =
     (if p = [] then ''.''
      else
        (let isAbs = posix_isAbsolute p;
             trailing = isSlash (last p);
             body = joinWith ''/'' (normSegs (\<not> isAbs) [] (split_on (CHR ''/'') p))
         in if body = [] then (if isAbs then ''/'' else if trailing then ''./'' else ''.'')
            else (if isAbs then ''/'' else []) @ body @ (if trailing then ''/'' else [])))"

definition posix_join :: "string list \<Rightarrow> string" where
  "posix_join parts =
     (let ps = filter (\<lambda>q. q \<noteq> []) parts
      in if ps = [] then ''.'' else posix_normalize (joinWith ''/'' ps))"

definition posix_dirname :: "string \<Rightarrow> string" where
  "posix_dirname p =
     (if p = [] then ''.''
      else
        (let hasRoot = posix_isAbsolute p;
             b = dropWhile (\<lambda>c. \<not> isSlash c) (dropWhile isSlash (rev (tl p)))
         in if b = [] then (if hasRoot then ''/'' else ''.'')
            else if hasRoot \<and> length b = 1 then ''//''
            else take (length b) p))"

definition posix_basename :: "string \<Rightarrow> string \<Rightarrow> string" where
  "posix_basename p suffix =
     (let trail = takeWhile isSlash (rev p);
          comp = lastComponent p;
          m = length comp;
          n = length suffix
      in if suffix \<noteq> [] \<and> n \<le> length p then
           (if suffix = p then []
            else if comp = [] then p
            else if n \<le> m then
              (if drop (m - n) comp = suffix \<and> n < m then take (m - n) comp else comp)
            else
              (if drop (n - m) suffix = comp then comp @ trail else comp))
         else comp)"

definition posix_resolve :: "string \<Rightarrow> string \<Rightarrow> string" where
  "posix_resolve cwd p =
     (let full = (if posix_isAbsolute p then p else cwd @ ''/'' @ p)
      in CHR ''/'' # joinWith ''/'' (normSegs False [] (split_on (CHR ''/'') full)))"

text \<open>The POSIX path module of a process with home directory \<open>home\<close> started in \<open>cwd\<close>.\<close>

definition posix :: "string \<Rightarrow> string \<Rightarrow> pathmod" where
  "posix home cwd =
     \<lparr>path_sep = ''/'',
      path_isAbsolute = posix_isAbsolute,
      path_join = posix_join,
      path_dirname = posix_dirname,
      path_extname = posix_extname,
      path_basename = posix_basename,
      path_resolve = posix_resolve cwd,
      os_homedir = home\<rparr>"

text \<open>
  The file system of the examples: a path is a directory, a readable file with its content,
  or a file whose reading fails with a message. New entries go in front.
\<close>

datatype node = Directory | Regular string | Unreadable string

type_synonym memfs = "(string \<times> node) list"

definition mem_isFile :: "memfs \<Rightarrow> string \<Rightarrow> string + bool" where
  "mem_isFile fs p =
     (case map_of fs p of
        None \<Rightarrow> Inl (''ENOENT: no such file or directory, stat '' @ sq @ p @ sq)
      | Some Directory \<Rightarrow> Inr False
      | Some _ \<Rightarrow> Inr True)"

definition mem_readFileSync :: "memfs \<Rightarrow> string \<Rightarrow> string + string" where
  "mem_readFileSync fs p =
     (case map_of fs p of
        None \<Rightarrow> Inl (''ENOENT: no such file or directory, open '' @ sq @ p @ sq)
      | Some Directory \<Rightarrow> Inl ''EISDIR: illegal operation on a directory, read''
      | Some (Regular content) \<Rightarrow> Inr content
      | Some (Unreadable msg) \<Rightarrow> Inl msg)"

definition mem_mkdirSync :: "memfs \<Rightarrow> string \<Rightarrow> string + memfs" where
  "mem_mkdirSync fs p =
     (case map_of fs p of
        None \<Rightarrow> Inr ((p, Directory) # fs)
      | Some Directory \<Rightarrow> Inr fs
      | Some _ \<Rightarrow> Inl (''EEXIST: file already exists, mkdir '' @ sq @ p @ sq))"

definition mem_writeFileSync :: "memfs \<Rightarrow> string \<Rightarrow> string \<Rightarrow> string + memfs" where
  "mem_writeFileSync fs p content =
     (case map_of fs p of
        Some Directory \<Rightarrow> Inl (''EISDIR: illegal operation on a directory, open '' @ sq @ p @ sq)
      | Some (Unreadable msg) \<Rightarrow> Inl msg
      | _ \<Rightarrow> Inr ((p, Regular content) # fs))"

definition memfs_ops :: "memfs fsmod" where
  "memfs_ops =
     \<lparr>fs_existsSync = (\<lambda>fs p. case map_of fs p of None \<Rightarrow> False | Some _ \<Rightarrow> True),
      fs_isFile = mem_isFile,
      fs_readFileSync = mem_readFileSync,
      fs_mkdirSync = mem_mkdirSync,
      fs_writeFileSync = mem_writeFileSync\<rparr>"

text \<open>
  An encoder for the examples: it rejects the payload \<open>bad\<close> and otherwise returns a
  string that shows what it was asked for. The compositor reads the logo file.
\<close>

definition demo_encode :: "string \<Rightarrow> string option \<Rightarrow> string + string" where
  "demo_encode kind d =
     (if \<not> truthy d then Inl ''No input text''
      else if d = Some ''bad'' then Inl ''encoder rejected the input''
      else Inr (kind @ '':'' @ ToString d))"

definition demo_qr :: "memfs qrmod" where
  "demo_qr =
     \<lparr>QRCode_toString = (\<lambda>d arg. demo_encode ''text'' d),
      QRCode_toBuffer = (\<lambda>d arg. demo_encode ''png'' d),
      QRCode_toFile = (\<lambda>fs file d arg.
         case demo_encode ''png'' d of
           Inl msg \<Rightarrow> Inl msg
         | Inr img \<Rightarrow> mem_writeFileSync fs file img),
      QRCode_toDataURL = (\<lambda>d arg. demo_encode ''data:image/png;base64'' d),
      sharp_embedLogo = (\<lambda>fs qrBuffer logoPath opts.
         case mem_readFileSync fs logoPath of
           Inl msg \<Rightarrow> Inl msg
         | Inr logo \<Rightarrow> Inr (qrBuffer @ ''+'' @ logo))\<rparr>"

definition noOptions :: options where
  "noOptions =
     \<lparr>opt_output = None, opt_format = None, opt_size = None, opt_color = None,
      opt_background = None, opt_margin = None, opt_logo = None, opt_logoSize = None,
      opt_batch = None, opt_html = False, opt_img = False\<rparr>"

text \<open>The options as the command-line parser fills in its defaults.\<close>

definition defaultOptions :: options where
  "defaultOptions =
     noOptions\<lparr>opt_format := Some ''png'', opt_size := Some ''300'', opt_color := Some ''#000000'',
               opt_background := Some ''#FFFFFF'', opt_margin := Some ''4'',
               opt_logoSize := Some ''20''\<rparr>"

definition world0 :: "memfs \<Rightarrow> memfs world" where
  "world0 fs = \<lparr>w_fs = fs, w_trace = []\<rparr>"

section \<open>Definitions for the statements\<close>

text \<open>A canonical colour: a hash sign and eight digits out of 0-9 and A-F.\<close>

definition isCanonicalColor :: "string \<Rightarrow> bool" where
  "isCanonicalColor s =
     (case s of
        [] \<Rightarrow> False
      | h # ds \<Rightarrow> h = CHR ''#'' \<and> length ds = 8 \<and> list_all (\<lambda>c. isDigit c \<or> isUpperAF c) ds)"



text \<open>
  The nine rules of the option validator, in the order in which they are checked: whether
  the rule is violated, and the error string of the rule.
\<close>

definition ruleViolations ::
  "pathmod \<Rightarrow> 'fs fsmod \<Rightarrow> 'fs \<Rightarrow> options \<Rightarrow> string option \<Rightarrow> (bool \<times> string) list" where
  "ruleViolations P F fs opts data =
     [(\<not> truthy data \<and> \<not> truthy (opt_batch opts),
       ''Data argument is required (or use --batch for batch processing)''),
      (truthy (opt_color opts) \<and> \<not> isValidHexColor (opt_color opts),
       ''Invalid color format: '' @ dq @ ToString (opt_color opts) @ dq
         @ ''. Use hex format (#RGB, #RRGGBB, or #RRGGBBAA)''),
      (truthy (opt_background opts) \<and> \<not> isValidHexColor (opt_background opts),
       ''Invalid background format: '' @ dq @ ToString (opt_background opts) @ dq
         @ ''. Use hex format (#RGB, #RRGGBB, or #RRGGBBAA)''),
      (truthy (opt_size opts) \<and> \<not> isValidNumber (ToString (opt_size opts)) (Fin 50) (Fin 2000),
       ''Invalid size: '' @ dq @ ToString (opt_size opts) @ dq
         @ ''. Must be between 50 and 2000 pixels''),
      (truthy (opt_margin opts) \<and> \<not> isValidNumber (ToString (opt_margin opts)) (Fin 0) (Fin 20),
       ''Invalid margin: '' @ dq @ ToString (opt_margin opts) @ dq
         @ ''. Must be between 0 and 20''),
      (truthy (opt_format opts) \<and> \<not> isValidFormat (opt_format opts),
       ''Invalid format: '' @ dq @ ToString (opt_format opts) @ dq
         @ ''. Supported formats: png, svg''),
      (truthy (opt_logo opts) \<and> \<not> isValidLogoFile P F fs (ToString (opt_logo opts)),
       ''Invalid logo file: '' @ dq @ ToString (opt_logo opts) @ dq
         @ ''. File must exist and be a valid image (png, jpg, svg, webp)''),
      (truthy (opt_logoSize opts)
         \<and> \<not> isValidNumber (ToString (opt_logoSize opts)) (Fin 5) (Fin 40),
       ''Invalid logo size: '' @ dq @ ToString (opt_logoSize opts) @ dq
         @ ''. Must be between 5% and 40%''),
      (truthy (opt_batch opts)
         \<and> \<not> bf_valid (validateBatchFile F fs (ToString (opt_batch opts))),
       ToString (bf_error (validateBatchFile F fs (ToString (opt_batch opts)))))]"

text \<open>Files and options of the examples.\<close>

definition demo_fs :: memfs where
  "demo_fs = [(''urls.txt'', Regular (''a'' @ nl @ nl @ ''b'' @ nl @ ''   '' @ nl @ ''c'')),
              (''blank.txt'', Regular ('' '' @ nl @ nl)),
              (''logo.png'', Regular ''logo'')]"

definition badOptions :: options where
  "badOptions =
     \<lparr>opt_output = None, opt_format = Some ''gif'', opt_size = Some ''49'', opt_color = Some ''red'',
      opt_background = Some ''#12'', opt_margin = Some ''21'', opt_logo = Some ''missing.png'',
      opt_logoSize = Some ''50'', opt_batch = Some ''blank.txt'', opt_html = False, opt_img = False\<rparr>"

text \<open>
  What a run shows to the outside, read off the trace: the progress lines, the calls of the
  logo compositor, and the error lines.
\<close>

fun progressOf :: "event \<Rightarrow> (nat \<times> nat \<times> string) list" where
  "progressOf (Log (LogProgress current n item)) = [(current, n, item)]"
| "progressOf _ = []"

fun embedOf :: "event \<Rightarrow> (string \<times> string) list" where
  "embedOf (Call (EmbedLogo qrBuffer logoPath)) = [(qrBuffer, logoPath)]"
| "embedOf _ = []"

fun errorOf :: "event \<Rightarrow> string list" where
  "errorOf (Log (LogError msg)) = [msg]"
| "errorOf _ = []"

definition proj :: "(event \<Rightarrow> 'b list) \<Rightarrow> 'fs world \<Rightarrow> 'b list" where
  "proj f w = concat (map f (w_trace w))"

text \<open>The entity that stands for a character in escaped HTML text.\<close>

definition entityOf :: "char \<Rightarrow> string" where
  "entityOf c =
     (if c = CHR ''&'' then ''&amp;''
      else if c = CHR ''<'' then ''&lt;''
      else if c = CHR ''>'' then ''&gt;''
      else if c = CHR 0x22 then ''&quot;''
      else if c = CHR 0x27 then ''&#39;''
      else [c])"


section \<open>Evaluation at concrete inputs\<close>

lemmas number_defs =
  parseInt_def Number_def nonDecimal_def unsignedDecimal_def exponentPart_def scale10_def
  ToString_def trim_def trimEnd_def trimStart_def isWhiteSpace_def isDigit_def isHexDigit_def
  isLowerAF_def isUpperAF_def isRadixDigit_def code_def radixValue_def digitVal_def Let_def
  isNaN_def js_ge_def js_neg_def

section \<open>Error-correction level (qr-builder.js)\<close>

text \<open>
  Claim C2. For every options object, the encoder parameters built by \<open>buildQROptions\<close>
  carry error-correction level H when a logo is requested, that is when \<open>options.logo\<close>
  is truthy, whatever the other options are, and the fixed default level M when no logo is
  requested.
\<close>

theorem buildQROptions_level:
  "errorCorrectionLevel (buildQROptions opts) = (if truthy (opt_logo opts) then ''H'' else ''M'')"
  by (simp add: buildQROptions_def DEFAULTS_def)

theorem buildQROptions_level_witness:
  "errorCorrectionLevel
     (buildQROptions (noOptions\<lparr>opt_logo := Some ''./logo.png'', opt_size := Some ''500''\<rparr>)) = ''H''
   \<and> errorCorrectionLevel (buildQROptions (noOptions\<lparr>opt_color := Some ''#F00''\<rparr>)) = ''M''"
  using buildQROptions_level [of "noOptions\<lparr>opt_logo := Some ''./logo.png'', opt_size := Some ''500''\<rparr>"]
        buildQROptions_level [of "noOptions\<lparr>opt_color := Some ''#F00''\<rparr>"]
  by (simp add: truthy_def noOptions_def)

section \<open>Logo size (qr-builder.js)\<close>

text \<open>
  Claim C7. For every options object, the logo size fraction returned by \<open>getLogoSize\<close>
  lies between 0.05 and 0.40, both included: \<open>0.05 <= getLogoSize(options)\<close> and
  \<open>getLogoSize(options) <= 0.40\<close> hold as JavaScript comparisons, so the result is never
  NaN either.
\<close>

theorem getLogoSize_clamped:
  "js_le (Fin (5 / 100)) (getLogoSize opts) \<and> js_le (getLogoSize opts) (Fin (40 / 100))"
  unfolding getLogoSize_def Let_def num_or_def Math_max_def Math_min_def js_div_def isNaN_def
  by (cases "parseInt (opt_logoSize opts)") auto

text \<open>An absent, a non-numeric, a zero, a negative, an ordinary and a huge logo size.\<close>

lemma getLogoSize_examples:
  "getLogoSize noOptions = Fin (20 / 100)"
  "getLogoSize (noOptions\<lparr>opt_logoSize := Some ''abc''\<rparr>) = Fin (20 / 100)"
  "getLogoSize (noOptions\<lparr>opt_logoSize := Some ''0''\<rparr>) = Fin (20 / 100)"
  "getLogoSize (noOptions\<lparr>opt_logoSize := Some ''-7''\<rparr>) = Fin (5 / 100)"
  "getLogoSize (noOptions\<lparr>opt_logoSize := Some ''30''\<rparr>) = Fin (30 / 100)"
  "getLogoSize (noOptions\<lparr>opt_logoSize := Some ''99999999999999999999''\<rparr>) = Fin (40 / 100)"
  by (simp_all add: getLogoSize_def noOptions_def num_or_def Math_max_def Math_min_def
        js_div_def number_defs)

theorem getLogoSize_clamped_witness:
  "js_le (Fin (5 / 100)) (getLogoSize (noOptions\<lparr>opt_logoSize := Some ''99999999999999999999''\<rparr>))
   \<and> js_le (getLogoSize (noOptions\<lparr>opt_logoSize := Some ''99999999999999999999''\<rparr>)) (Fin (40 / 100))
   \<and> getLogoSize (noOptions\<lparr>opt_logoSize := Some ''99999999999999999999''\<rparr>) = Fin (40 / 100)"
  using getLogoSize_clamped [of "noOptions\<lparr>opt_logoSize := Some ''99999999999999999999''\<rparr>"]
        getLogoSize_examples(6)
  by simp

section \<open>Colour normalisation (validators.js)\<close>

lemma code_char_of: "code (char_of (n::nat)) = n mod 256"
  by (simp add: code_def)

lemma upperChar_hex: "isHexDigit c \<Longrightarrow> isDigit (upperChar c) \<or> isUpperAF (upperChar c)"
  unfolding isHexDigit_def isDigit_def isUpperAF_def isLowerAF_def upperChar_def
  by (auto simp: code_char_of)

lemma toUpperCase_hex:
  "list_all isHexDigit ds \<Longrightarrow> list_all (\<lambda>c. isDigit c \<or> isUpperAF c) (toUpperCase ds)"
  by (induction ds) (simp_all add: toUpperCase_def upperChar_hex)

lemma doubled_all: "list_all Q xs \<Longrightarrow> list_all Q (concat (map (\<lambda>c. [c, c]) xs))"
  by (induction xs) simp_all

lemma doubled_length: "length (concat (map (\<lambda>c. [c, c]) xs)) = 2 * length xs"
  by (induction xs) simp_all

lemma FF_upper: "list_all (\<lambda>c. isDigit c \<or> isUpperAF c) ''FF''"
  by (simp add: isUpperAF_def code_def)

lemma black_canonical: "isCanonicalColor ''#000000FF''"
  by (simp add: isCanonicalColor_def isUpperAF_def isDigit_def code_def)

lemma normalize_valid:
  assumes "list_all isHexDigit ds"
    and "length ds = 3 \<or> length ds = 4 \<or> length ds = 6 \<or> length ds = 8"
  shows "normalizeHexColor (Some (CHR ''#'' # ds)) =
           CHR ''#'' # (if length ds = 3 then concat (map (\<lambda>c. [c, c]) (toUpperCase ds)) @ ''FF''
                        else if length ds = 4 then concat (map (\<lambda>c. [c, c]) (toUpperCase ds))
                        else if length ds = 6 then toUpperCase ds @ ''FF''
                        else toUpperCase ds)"
  using assms
  by (simp add: normalizeHexColor_def isValidHexColor_def hexRegex_test_def ToString_def Let_def
        toUpperCase_def)

lemma normalize_canonical: "isCanonicalColor (normalizeHexColor color)"
proof (cases "isValidHexColor color")
  case False
  then show ?thesis by (simp add: normalizeHexColor_def black_canonical)
next
  case True
  then obtain ds where c: "color = Some (CHR ''#'' # ds)" and hx: "list_all isHexDigit ds"
    and len: "length ds = 3 \<or> length ds = 4 \<or> length ds = 6 \<or> length ds = 8"
    by (auto simp: isValidHexColor_def hexRegex_test_def split: option.splits list.splits if_splits)
  have up: "list_all (\<lambda>c. isDigit c \<or> isUpperAF c) (toUpperCase ds)"
    using hx by (rule toUpperCase_hex)
  have l: "length (toUpperCase ds) = length ds" by (simp add: toUpperCase_def)
  show ?thesis
    unfolding c normalize_valid [OF hx len] isCanonicalColor_def
    using len up l FF_upper
    by (auto simp: doubled_all doubled_length simp del: list.pred_inject)
qed

text \<open>
  Claim C6. For every input, colour normalisation returns a canonical colour of eight
  upper-case hexadecimal digits. An invalid input gives opaque black \<open>#000000FF\<close>. A valid
  3-digit colour has each digit doubled and FF appended, a valid 4-digit colour has each
  digit doubled, the alpha digit too, a valid 6-digit colour gets FF appended, and a valid
  8-digit colour is returned as it is, all in upper case. In particular \<open>#F00\<close> gives
  \<open>#FF0000FF\<close>, \<open>#F00F\<close> gives \<open>#FF0000FF\<close> and \<open>#1a1a2e\<close> gives \<open>#1A1A2EFF\<close>.
\<close>

theorem normalizeHexColor_forms:
  "isCanonicalColor (normalizeHexColor color)
   \<and> (\<not> isValidHexColor color \<longrightarrow> normalizeHexColor color = ''#000000FF'')
   \<and> (list_all isHexDigit [r, g, b] \<longrightarrow>
        normalizeHexColor (Some [CHR ''#'', r, g, b])
          = CHR ''#'' # toUpperCase [r, r, g, g, b, b] @ ''FF'')
   \<and> (list_all isHexDigit [r, g, b, a] \<longrightarrow>
        normalizeHexColor (Some [CHR ''#'', r, g, b, a])
          = CHR ''#'' # toUpperCase [r, r, g, g, b, b, a, a])
   \<and> (list_all isHexDigit ds6 \<and> length ds6 = 6 \<longrightarrow>
        normalizeHexColor (Some (CHR ''#'' # ds6)) = CHR ''#'' # toUpperCase ds6 @ ''FF'')
   \<and> (list_all isHexDigit ds8 \<and> length ds8 = 8 \<longrightarrow>
        normalizeHexColor (Some (CHR ''#'' # ds8)) = CHR ''#'' # toUpperCase ds8)
   \<and> normalizeHexColor (Some ''#F00'') = ''#FF0000FF''
   \<and> normalizeHexColor (Some ''#F00F'') = ''#FF0000FF''
   \<and> normalizeHexColor (Some ''#1a1a2e'') = ''#1A1A2EFF''"
proof -
  have e1: "normalizeHexColor (Some ''#F00'') = ''#FF0000FF''" by code_simp
  have e2: "normalizeHexColor (Some ''#F00F'') = ''#FF0000FF''" by code_simp
  have e3: "normalizeHexColor (Some ''#1a1a2e'') = ''#1A1A2EFF''" by code_simp
  have inv: "\<not> isValidHexColor color \<longrightarrow> normalizeHexColor color = ''#000000FF''"
    by (simp add: normalizeHexColor_def)
  have f3: "list_all isHexDigit [r, g, b] \<longrightarrow>
        normalizeHexColor (Some [CHR ''#'', r, g, b])
          = CHR ''#'' # toUpperCase [r, r, g, g, b, b] @ ''FF''"
    by (simp add: normalize_valid toUpperCase_def)
  have f4: "list_all isHexDigit [r, g, b, a] \<longrightarrow>
        normalizeHexColor (Some [CHR ''#'', r, g, b, a])
          = CHR ''#'' # toUpperCase [r, r, g, g, b, b, a, a]"
    by (simp add: normalize_valid toUpperCase_def)
  have f6: "list_all isHexDigit ds6 \<and> length ds6 = 6 \<longrightarrow>
        normalizeHexColor (Some (CHR ''#'' # ds6)) = CHR ''#'' # toUpperCase ds6 @ ''FF''"
    by (simp add: normalize_valid)
  have f8: "list_all isHexDigit ds8 \<and> length ds8 = 8 \<longrightarrow>
        normalizeHexColor (Some (CHR ''#'' # ds8)) = CHR ''#'' # toUpperCase ds8"
    by (simp add: normalize_valid)
  show ?thesis using normalize_canonical e1 e2 e3 inv f3 f4 f6 f8 by blast
qed

theorem normalizeHexColor_forms_witness:
  "\<not> isValidHexColor (Some ''red'') \<and> normalizeHexColor (Some ''red'') = ''#000000FF''
   \<and> list_all isHexDigit ''a1c'' \<and> normalizeHexColor (Some ''#a1c'') = ''#AA11CCFF''
   \<and> list_all isHexDigit ''a1c8'' \<and> normalizeHexColor (Some ''#a1c8'') = ''#AA11CC88''
   \<and> list_all isHexDigit ''eaeaea'' \<and> length ''eaeaea'' = 6
   \<and> normalizeHexColor (Some ''#eaeaea'') = ''#EAEAEAFF''
   \<and> list_all isHexDigit ''1a2b3c4d'' \<and> length ''1a2b3c4d'' = 8
   \<and> normalizeHexColor (Some ''#1a2b3c4d'') = ''#1A2B3C4D''"
proof -
  have h0: "\<not> isValidHexColor (Some ''red'')" by code_simp
  have h3: "list_all isHexDigit ''a1c''" by code_simp
  have h4: "list_all isHexDigit ''a1c8''" by code_simp
  have h6: "list_all isHexDigit ''eaeaea'' \<and> length ''eaeaea'' = 6" by code_simp
  have h8: "list_all isHexDigit ''1a2b3c4d'' \<and> length ''1a2b3c4d'' = 8" by code_simp
  have u3: "CHR ''#'' # toUpperCase ''aa11cc'' @ ''FF'' = ''#AA11CCFF''" by code_simp
  have u4: "CHR ''#'' # toUpperCase ''aa11cc88'' = ''#AA11CC88''" by code_simp
  have u6: "CHR ''#'' # toUpperCase ''eaeaea'' @ ''FF'' = ''#EAEAEAFF''" by code_simp
  have u8: "CHR ''#'' # toUpperCase ''1a2b3c4d'' = ''#1A2B3C4D''" by code_simp
  note t = normalizeHexColor_forms [of "Some ''red''" "CHR ''a''" "CHR ''1''" "CHR ''c''"
      "CHR ''8''" "''eaeaea''" "''1a2b3c4d''"]
  have c0: "normalizeHexColor (Some ''red'') = ''#000000FF''" using t h0 by blast
  have c3: "normalizeHexColor (Some ''#a1c'') = ''#AA11CCFF''" using t h3 unfolding u3 by blast
  have c4: "normalizeHexColor (Some ''#a1c8'') = ''#AA11CC88''" using t h4 unfolding u4 by blast
  have c6: "normalizeHexColor (Some ''#eaeaea'') = ''#EAEAEAFF''" using t h6 unfolding u6 by blast
  have c8: "normalizeHexColor (Some ''#1a2b3c4d'') = ''#1A2B3C4D''"
    using t h8 unfolding u8 by blast
  show ?thesis using h0 h3 h4 h6 h8 c0 c3 c4 c6 c8 by blast
qed

section \<open>Batch input (validators.js)\<close>



lemma trimEnd_Nil: "(trimEnd s = []) = list_all isWhiteSpace s"
  by (simp add: trimEnd_def dropWhile_eq_Nil_conv list_all_iff)









section \<open>Option validation (validators.js)\<close>

lemma push_if: "(if c then e @ [m] else e) = e @ (if c then [m] else [])"
  by simp

lemma filter_rule: "map snd (filter fst ((c, m) # rs)) = (if c then [m] else []) @ map snd (filter fst rs)"
  by simp

lemma if_app: "(if c then e @ x else e) = e @ (if c then x else [])"
  by simp

lemma if_conj: "(if c then (if d then x else []) else []) = (if c \<and> d then x else [])"
  by simp

lemma validateOptions_errors:
  "vr_errors (validateOptions P F fs opts data) = map snd (filter fst (ruleViolations P F fs opts data))"
  apply (simp only: validateOptions_def push_if)
  apply (simp only: Let_def if_app if_conj ruleViolations_def filter_rule)
  apply (simp split del: if_split)
  done

text \<open>
  Claim C9. Option validation never short-circuits: whatever rules are violated together,
  the errors of the result are the error strings of exactly the violated rules, one entry
  for each, in the order of the rules, and the result is valid exactly when there is no
  error.
\<close>

theorem validateOptions_collects_all:
  "vr_errors (validateOptions P F fs opts data) = map snd (filter fst (ruleViolations P F fs opts data))
   \<and> length (vr_errors (validateOptions P F fs opts data))
       = length (filter fst (ruleViolations P F fs opts data))
   \<and> vr_valid (validateOptions P F fs opts data) = (vr_errors (validateOptions P F fs opts data) = [])"
proof -
  have v: "vr_valid (validateOptions P F fs opts data) = (vr_errors (validateOptions P F fs opts data) = [])"
    by (simp add: validateOptions_def Let_def split del: if_split)
  show ?thesis using validateOptions_errors [of P F fs opts data] v by simp
qed


lemma badOptions_rules:
  "map fst (ruleViolations (posix ''/home/u'' ''/work'') memfs_ops demo_fs badOptions None)
     = [False, True, True, True, True, True, True, True, True]"
  by code_simp

lemma badOptions_length:
  "length (filter fst (ruleViolations (posix ''/home/u'' ''/work'') memfs_ops demo_fs badOptions None)) = 8"
  by code_simp

theorem validateOptions_collects_all_witness:
  "length (vr_errors (validateOptions (posix ''/home/u'' ''/work'') memfs_ops demo_fs badOptions None)) = 8
   \<and> vr_valid (validateOptions (posix ''/home/u'' ''/work'') memfs_ops demo_fs badOptions None) = False
   \<and> length (vr_errors (validateOptions (posix ''/home/u'' ''/work'') memfs_ops demo_fs noOptions None)) = 1"
proof -
  have one: "length (filter fst (ruleViolations (posix ''/home/u'' ''/work'') memfs_ops demo_fs noOptions None)) = 1"
    by code_simp
  note t = validateOptions_collects_all [of "posix ''/home/u'' ''/work''" memfs_ops demo_fs badOptions None]
  note u = validateOptions_collects_all [of "posix ''/home/u'' ''/work''" memfs_ops demo_fs noOptions None]
  show ?thesis using t u badOptions_length one by auto
qed

text \<open>
  Claim C8, at the input where the code departs from it. With the defaults of the
  command-line parser and the format \<open>terminal\<close>, option validation reports no error,
  although the format is neither \<open>png\<close> nor \<open>svg\<close>; the output format is then
  \<open>terminal\<close>.
\<close>

theorem validateOptions_accepts_terminal:
  "validateOptions P F fs (defaultOptions\<lparr>opt_format := Some ''terminal''\<rparr>) (Some ''hello'')
     = \<lparr>vr_valid = True, vr_errors = []\<rparr>
   \<and> getOutputFormat (defaultOptions\<lparr>opt_format := Some ''terminal''\<rparr>) = ''terminal''"
proof -
  have c: "isValidHexColor (Some ''#000000'')" "isValidHexColor (Some ''#FFFFFF'')" by code_simp+
  have n: "isValidNumber ''300'' (Fin 50) (Fin 2000)" "isValidNumber ''4'' (Fin 0) (Fin 20)"
    "isValidNumber ''20'' (Fin 5) (Fin 40)"
    by (simp_all add: isValidNumber_def number_defs)
  have f: "isValidFormat (Some ''terminal'')" by code_simp
  have g: "getOutputFormat (defaultOptions\<lparr>opt_format := Some ''terminal''\<rparr>) = ''terminal''" by code_simp
  have "validateOptions P F fs (defaultOptions\<lparr>opt_format := Some ''terminal''\<rparr>) (Some ''hello'')
     = \<lparr>vr_valid = True, vr_errors = []\<rparr>"
    by (simp add: validateOptions_def defaultOptions_def noOptions_def truthy_def ToString_def c n f)
  with g show ?thesis by simp
qed

text \<open>The bounds of the size and of the margin, as the validator checks them.\<close>

lemma isValidNumber_boundaries:
  "\<not> isValidNumber ''49'' (Fin 50) (Fin 2000)"
  "isValidNumber ''50'' (Fin 50) (Fin 2000)"
  "isValidNumber ''2000'' (Fin 50) (Fin 2000)"
  "\<not> isValidNumber ''2001'' (Fin 50) (Fin 2000)"
  "\<not> isValidNumber ''-1'' (Fin 0) (Fin 20)"
  "isValidNumber ''0'' (Fin 0) (Fin 20)"
  "isValidNumber ''20'' (Fin 0) (Fin 20)"
  "\<not> isValidNumber ''21'' (Fin 0) (Fin 20)"
  by (simp_all add: isValidNumber_def number_defs)


section \<open>Runs of the batch processor\<close>

lemma proj_emit [simp]: "proj f (emit e w) = proj f w @ f e"
  by (simp add: proj_def emit_def)

lemma proj_fs [simp]: "proj f (w\<lparr>w_fs := x\<rparr>) = proj f w"
  by (simp add: proj_def)

lemmas io_defs = io_return_def io_throw_def process_exit_def io_bind_def io_then_def io_catch_def
  logger_def lift_def toString_io_def toBuffer_io_def toDataURL_io_def toFile_io_def embedLogo_def
  writeFileSync_def ensureDirectory_io_def get_fs_def

text \<open>
  One iteration never aborts: it returns which counter it increments. It prints the
  progress line of its item, prints one error line exactly when it fails, and calls the
  compositor only for a format other than \<open>svg\<close> with \<open>uselogo\<close> set.
\<close>

lemma batchItem_result:
  "snd (batchItem P F Q opts qrOptions fmt uselogo outputDir n i d w) = Inr True
   \<or> snd (batchItem P F Q opts qrOptions fmt uselogo outputDir n i d w) = Inr False"
  unfolding batchItem_def Let_def io_defs
  by (simp split: sum.splits prod.splits abort.splits)

lemma batchItem_progress:
  "proj progressOf (fst (batchItem P F Q opts qrOptions fmt uselogo outputDir n i d w))
     = proj progressOf w @ [(i + 1, n, truncateData d 40)]"
  unfolding batchItem_def Let_def io_defs
  by (simp split: sum.splits prod.splits abort.splits)

lemma batchItem_errors:
  "length (proj errorOf (fst (batchItem P F Q opts qrOptions fmt uselogo outputDir n i d w)))
     = length (proj errorOf w)
       + (if snd (batchItem P F Q opts qrOptions fmt uselogo outputDir n i d w) = Inr True
          then 0 else 1)"
  unfolding batchItem_def Let_def io_defs
  by (simp split: sum.splits prod.splits abort.splits)

lemma batchItem_embed:
  "fmt = ''svg'' \<or> \<not> uselogo \<Longrightarrow>
     proj embedOf (fst (batchItem P F Q opts qrOptions fmt uselogo outputDir n i d w))
       = proj embedOf w"
  unfolding batchItem_def Let_def io_defs
  by (auto split: sum.splits prod.splits abort.splits)

lemma batchItem_step:
  "\<exists>w' ok. batchItem P F Q opts qrOptions fmt uselogo outputDir n i d w = (w', Inr ok)
      \<and> proj progressOf w' = proj progressOf w @ [(i + 1, n, truncateData d 40)]
      \<and> length (proj errorOf w') = length (proj errorOf w) + (if ok then 0 else 1)
      \<and> (fmt = ''svg'' \<or> \<not> uselogo \<longrightarrow> proj embedOf w' = proj embedOf w)"
proof -
  obtain w' res where r: "batchItem P F Q opts qrOptions fmt uselogo outputDir n i d w = (w', res)"
    by (cases "batchItem P F Q opts qrOptions fmt uselogo outputDir n i d w") blast
  from batchItem_result [of P F Q opts qrOptions fmt uselogo outputDir n i d w] r
  obtain ok where ok: "res = Inr ok" by auto
  from batchItem_progress [of P F Q opts qrOptions fmt uselogo outputDir n i d w] r
  have p: "proj progressOf w' = proj progressOf w @ [(i + 1, n, truncateData d 40)]" by simp
  from batchItem_errors [of P F Q opts qrOptions fmt uselogo outputDir n i d w] r ok
  have e: "length (proj errorOf w') = length (proj errorOf w) + (if ok then 0 else 1)" by simp
  from batchItem_embed [of fmt uselogo P F Q opts qrOptions outputDir n i d w] r
  have m: "fmt = ''svg'' \<or> \<not> uselogo \<longrightarrow> proj embedOf w' = proj embedOf w" by simp
  from r ok p e m show ?thesis by blast
qed

lemma batchLoop_run:
  assumes item: "\<And>i d w. \<exists>w' ok. item i d w = (w', Inr ok)
      \<and> proj progressOf w' = proj progressOf w @ [(i + 1, n, truncateData d 40)]
      \<and> length (proj errorOf w') = length (proj errorOf w) + (if ok then 0 else 1)
      \<and> (q \<longrightarrow> proj embedOf w' = proj embedOf w)"
  shows "\<exists>w' s' f'. batchLoop item i ds (s, f) w = (w', Inr (s', f'))
      \<and> s' + f' = s + f + length ds
      \<and> proj progressOf w' = proj progressOf w
            @ map (\<lambda>(k, d). (k + 1, n, truncateData d 40)) (enumerate i ds)
      \<and> length (proj errorOf w') + f = length (proj errorOf w) + f'
      \<and> (q \<longrightarrow> proj embedOf w' = proj embedOf w)"
proof (induction ds arbitrary: i s f w)
  case Nil
  show ?case by (simp add: io_return_def)
next
  case (Cons d ds)
  from item [of i d w] obtain w1 ok where
    1: "item i d w = (w1, Inr ok)"
    and 2: "proj progressOf w1 = proj progressOf w @ [(i + 1, n, truncateData d 40)]"
    and 3: "length (proj errorOf w1) = length (proj errorOf w) + (if ok then 0 else 1)"
    and 4: "q \<longrightarrow> proj embedOf w1 = proj embedOf w"
    by blast
  show ?case
  proof (cases ok)
    case True
    from Cons.IH [of "i + 1" "s + 1" f w1] obtain w' s' f' where
      "batchLoop item (i + 1) ds (s + 1, f) w1 = (w', Inr (s', f'))"
      "s' + f' = s + 1 + f + length ds"
      "proj progressOf w' = proj progressOf w1
            @ map (\<lambda>(k, d). (k + 1, n, truncateData d 40)) (enumerate (i + 1) ds)"
      "length (proj errorOf w') + f = length (proj errorOf w1) + f'"
      "q \<longrightarrow> proj embedOf w' = proj embedOf w1"
      by blast
    with 1 2 3 4 True show ?thesis by (simp add: io_bind_def)
  next
    case False
    from Cons.IH [of "i + 1" s "f + 1" w1] obtain w' s' f' where
      "batchLoop item (i + 1) ds (s, f + 1) w1 = (w', Inr (s', f'))"
      "s' + f' = s + (f + 1) + length ds"
      "proj progressOf w' = proj progressOf w1
            @ map (\<lambda>(k, d). (k + 1, n, truncateData d 40)) (enumerate (i + 1) ds)"
      "length (proj errorOf w') + (f + 1) = length (proj errorOf w1) + f'"
      "q \<longrightarrow> proj embedOf w' = proj embedOf w1"
      by blast
    with 1 2 3 4 False show ?thesis by (simp add: io_bind_def)
  qed
qed

text \<open>
  A run of \<open>processBatch\<close> on a valid batch file whose output directory can be made: it
  returns, with the counters of the loop and the directory.
\<close>

lemma processBatch_run:
  assumes v: "bf_valid (validateBatchFile F (w_fs w) file)"
    and d: "fst (ensureDirectory F (w_fs w)
                  (resolveOutputDir P (opt_output opts) (path_basename P file (path_extname P file)) now))"
  shows "\<exists>w' r. processBatch P F Q now file opts w = (w', Inr r)
      \<and> br_success r + br_failed r = length (bf_lines (validateBatchFile F (w_fs w) file))
      \<and> br_outputDir r
           = resolveOutputDir P (opt_output opts) (path_basename P file (path_extname P file)) now
      \<and> proj progressOf w' = proj progressOf w
            @ map (\<lambda>(k, l). (k + 1, length (bf_lines (validateBatchFile F (w_fs w) file)),
                              truncateData l 40))
                (enumerate 0 (bf_lines (validateBatchFile F (w_fs w) file)))
      \<and> length (proj errorOf w')
           = length (proj errorOf w) + br_failed r + (if br_failed r > 0 then 1 else 0)
      \<and> (\<not> shouldEmbedLogo opts \<longrightarrow> proj embedOf w' = proj embedOf w)"
proof -
  define lines where "lines = bf_lines (validateBatchFile F (w_fs w) file)"
  define dir where
    "dir = resolveOutputDir P (opt_output opts) (path_basename P file (path_extname P file)) now"
  define item where
    "item = batchItem P F Q opts (buildQROptions opts) (getOutputFormat opts) (shouldEmbedLogo opts)
              dir (length lines)"
  define W where
    "W = emit (Log LogDivider)
          (emit (Log (LogInfo (''Format: '' @ toUpperCase (getOutputFormat opts))))
            (emit (Log (LogInfo (''Output directory: '' @ dir)))
              (emit (Log (LogHeader (''Batch Processing: '' @ showNat (length lines) @ '' QR codes'')))
                (w\<lparr>w_fs := snd (ensureDirectory F (w_fs w) dir)\<rparr>))))"
  have step: "\<exists>w' ok. item i l u = (w', Inr ok)
      \<and> proj progressOf w' = proj progressOf u @ [(i + 1, length lines, truncateData l 40)]
      \<and> length (proj errorOf w') = length (proj errorOf u) + (if ok then 0 else 1)
      \<and> (\<not> shouldEmbedLogo opts \<longrightarrow> proj embedOf w' = proj embedOf u)" for i l u
    using batchItem_step [of P F Q opts "buildQROptions opts" "getOutputFormat opts"
        "shouldEmbedLogo opts" dir "length lines" i l u]
    unfolding item_def by blast
  from batchLoop_run [of item "length lines" "\<not> shouldEmbedLogo opts" 0 lines 0 0 W, OF step]
  obtain w3 s f where
    loop: "batchLoop item 0 lines (0, 0) W = (w3, Inr (s, f))"
    and sum: "s + f = length lines"
    and prog: "proj progressOf w3 = proj progressOf W
            @ map (\<lambda>(k, l). (k + 1, length lines, truncateData l 40)) (enumerate 0 lines)"
    and errs: "length (proj errorOf w3) = length (proj errorOf W) + f"
    and emb: "\<not> shouldEmbedLogo opts \<longrightarrow> proj embedOf w3 = proj embedOf W"
    by auto
  have W_prog: "proj progressOf W = proj progressOf w" and W_emb: "proj embedOf W = proj embedOf w"
    and W_err: "proj errorOf W = proj errorOf w"
    by (simp_all add: W_def)
  define w4 where
    "w4 = emit (Log (LogSaved dir))
           ((if f > 0 then emit (Log (LogError (''Failed: '' @ showNat f @ '' QR codes''))) else id)
             (emit (Log (LogSuccess (''Generated: '' @ showNat s @ '' QR codes'')))
               (emit (Log (LogHeader ''Batch Processing Complete''))
                 (emit (Log LogDivider) w3))))"
  have run: "processBatch P F Q now file opts w
               = (w4, Inr \<lparr>br_success = s, br_failed = f, br_outputDir = dir\<rparr>)"
    using v d loop
    unfolding processBatch_def Let_def io_defs w4_def W_def item_def lines_def dir_def
    by (simp add: case_prod_beta)
  have "proj progressOf w4 = proj progressOf w3" "proj embedOf w4 = proj embedOf w3"
    "length (proj errorOf w4) = length (proj errorOf w3) + (if f > 0 then 1 else 0)"
    by (simp_all add: w4_def)
  with run sum prog errs emb W_prog W_emb W_err show ?thesis
    unfolding lines_def [symmetric] dir_def [symmetric] by auto
qed

lemma generateQR_no_embed:
  "\<not> shouldEmbedLogo opts \<Longrightarrow>
     proj embedOf (fst (generateQR P F Q now d opts w)) = proj embedOf w"
  unfolding generateQR_def generateSVG_def generatePNG_def displayTerminalQR_def Let_def io_defs
  by (auto split: sum.splits prod.splits abort.splits)

lemma processBatch_no_embed:
  assumes "\<not> shouldEmbedLogo opts"
  shows "proj embedOf (fst (processBatch P F Q now file opts w)) = proj embedOf w"
proof (cases "bf_valid (validateBatchFile F (w_fs w) file)")
  case False
  then show ?thesis by (simp add: processBatch_def Let_def io_defs)
next
  case v: True
  show ?thesis
  proof (cases "fst (ensureDirectory F (w_fs w)
                  (resolveOutputDir P (opt_output opts) (path_basename P file (path_extname P file)) now))")
    case False
    with v show ?thesis by (simp add: processBatch_def Let_def io_defs case_prod_beta)
  next
    case True
    from processBatch_run [OF v True, of Q] assms show ?thesis by auto
  qed
qed

lemma no_violation: "filter fst rs = [] \<Longrightarrow> (c, m) \<in> set rs \<Longrightarrow> \<not> c"
  by (auto simp: filter_empty_conv)

lemma valid_options_batch:
  assumes "vr_valid (validateOptions P F fs opts d)" and "truthy (opt_batch opts)"
  shows "bf_valid (validateBatchFile F fs (ToString (opt_batch opts)))"
proof -
  have "map snd (filter fst (ruleViolations P F fs opts d)) = []"
    using assms(1) validateOptions_collects_all [of P F fs opts d] by simp
  then have e: "filter fst (ruleViolations P F fs opts d) = []" by simp
  have "(truthy (opt_batch opts) \<and> \<not> bf_valid (validateBatchFile F fs (ToString (opt_batch opts))),
         ToString (bf_error (validateBatchFile F fs (ToString (opt_batch opts)))))
          \<in> set (ruleViolations P F fs opts d)"
    by (simp add: ruleViolations_def)
  from no_violation [OF e this] assms(2) show ?thesis by simp
qed


end
